theory Spec2Isabelle
  imports Main
begin

section \<open>Shared vocabulary: entities, errors, forms, responses\<close>

text \<open>
  The two classes of \<^verbatim>\<open>extra_views/views.py\<close> are glue over Django: forms, querysets and
  redirects belong to the framework. The model keeps the control flow of the source and
  takes what the framework decides (whether a form validates on the submitted data, which
  entity a save returns, whether an attribute assignment raises) as data of the request.
  Every effect on a form or an entity is appended to a trace, in the order the source
  performs it.
\<close>

text \<open>The identity of a model instance.\<close>

type_synonym obj = nat

text \<open>
  The exceptions of the source. The payload is the name the message is about (the
  descriptor's name, the attribute's name), not the formatted message.
\<close>

datatype error =
    ImproperlyConfigured string
  | TypeError string
  | AttributeError string
  | IntegrityError string
  | RuntimeError string

text \<open>
  A form or formset class, seen through what the mixin asks of the instance it builds:
  the outcome of \<^verbatim>\<open>is_valid()\<close> once bound to the submitted data, whether the instance
  has a callable \<^verbatim>\<open>save\<close> and a \<^verbatim>\<open>save_m2m\<close>, for which attribute names
  \<^verbatim>\<open>setattr\<close> raises on the entity that \<^verbatim>\<open>save(commit=False)\<close> returns, and
  whether saving that entity raises IntegrityError when its foreign key was not assigned
  (it does when the column is NOT NULL, the default of a Django foreign key, and the entity
  is new).
\<close>

record form_class =
  fc_is_valid :: bool
  fc_has_save :: bool
  fc_has_save_m2m :: bool
  fc_setattr_raises :: "string \<Rightarrow> bool"
  fc_save_unassigned_raises :: bool

text \<open>
  The value under \<^verbatim>\<open>form_class\<close> / \<^verbatim>\<open>formset_class\<close>: a falsy value, a class, or a plain
  function of the view that returns a class or nothing. A function of the view is modelled
  as a function of \<^verbatim>\<open>self.object\<close>.
\<close>

datatype class_ref =
    Falsy
  | Class form_class
  | FunctionType "obj option \<Rightarrow> form_class option"

text \<open>The value under \<^verbatim>\<open>instance\<close>: an entity, or a callable of the view.\<close>

datatype instance_ref =
    InstanceValue obj
  | InstanceCallable "obj option \<Rightarrow> obj option"

text \<open>Values that travel in the keyword arguments of a form constructor.\<close>

datatype pyval =
    PStr string
  | PObj "obj option"
  | PFn "obj option \<Rightarrow> pyval"
  | PRequestPOST
  | PRequestFILES

text \<open>
  A descriptor (\<^verbatim>\<open>form_data\<close>): one entry of \<^verbatim>\<open>extra_form_classes\<close> or
  \<^verbatim>\<open>formset_classes\<close>. \<open>None\<close> is an absent key.
\<close>

record descriptor =
  d_form_class :: "class_ref option"
  d_formset_class :: "class_ref option"
  d_instance :: "instance_ref option"
  d_kwargs :: "(string \<times> pyval) list option"
  d_foreign_key_field :: "string option"
  d_field_name_for_object :: "string option"

text \<open>
  A constructed form or formset. \<open>f_name\<close> identifies the object in the trace (the name
  of the descriptor it was built from); \<open>f_kwargs\<close> is the dictionary passed to the
  constructor; \<open>f_cleaned\<close> records that \<^verbatim>\<open>is_valid()\<close> has run, so that the errors
  of the form are collected; \<open>f_instance\<close> is the \<^verbatim>\<open>instance\<close> attribute.
\<close>

record form =
  f_name :: string
  f_class :: form_class
  f_kwargs :: "(string \<times> pyval) list"
  f_settings :: descriptor
  f_cleaned :: bool
  f_instance :: "obj option"

text \<open>The master form, as \<^verbatim>\<open>get_form(get_form_class())\<close> of the host view returns it.\<close>

record master_form =
  mf_is_valid :: bool
  mf_save :: obj
  mf_cleaned :: bool

text \<open>The template context of the re-rendered page.\<close>

record template_context =
  ctx_form :: master_form
  ctx_extra_forms :: "form list"
  ctx_formsets :: "form list"

datatype response =
    Redirect string
  | RenderToResponse template_context

text \<open>What the source does to forms and entities, in order.\<close>

datatype event =
    MasterIsValid
  | IsValid string
  | MasterSave obj
  | SaveUncommitted string
  | EntitySave string "(string \<times> obj option) list"
  | SaveM2M string
  | FormsetSave string "obj option"

text \<open>The events that write to the database.\<close>

fun persists :: "event \<Rightarrow> bool" where
  "persists (MasterSave _) = True"
| "persists (EntitySave _ _) = True"
| "persists (SaveM2M _) = True"
| "persists (FormsetSave _ _) = True"
| "persists _ = False"

section \<open>MultiFormMixin\<close>

text \<open>
  The view, as far as the mixin reads it: the request method, the two class attributes
  (\<open>None\<close> when the attribute is not defined), and what the host view supplies:
  \<^verbatim>\<open>get_object()\<close> (\<open>None\<close> when it raises AttributeError, as on a create view), the
  master form of \<^verbatim>\<open>get_form\<close>, and the success URL.
\<close>

record view =
  v_request_method :: string
  v_extra_form_classes :: "(string \<times> descriptor) list option"
  v_formset_classes :: "(string \<times> descriptor) list option"
  v_get_object :: "obj option"
  v_get_form :: master_form
  v_get_success_url :: string

text \<open>
  The attributes the mixin assigns on \<^verbatim>\<open>self\<close> (\<^verbatim>\<open>object\<close>, and the two caches
  \<^verbatim>\<open>_extra_forms\<close> and \<^verbatim>\<open>_formsets\<close>, \<open>None\<close> while not yet assigned), and the trace.
\<close>

record self_state =
  s_object :: "obj option"
  s_extra_forms :: "form list option"
  s_formsets :: "form list option"
  s_trace :: "event list"

text \<open>A view object at the start of a request.\<close>

definition fresh :: self_state where
  "fresh = \<lparr>s_object = None, s_extra_forms = None, s_formsets = None, s_trace = []\<rparr>"

definition get_extra_form_classes :: "view \<Rightarrow> (string \<times> descriptor) list" where
  "get_extra_form_classes v = (case v_extra_form_classes v of Some d \<Rightarrow> d | None \<Rightarrow> [])"

definition get_formset_classes :: "view \<Rightarrow> (string \<times> descriptor) list" where
  "get_formset_classes v = (case v_formset_classes v of Some d \<Rightarrow> d | None \<Rightarrow> [])"

subsection \<open>Construction of the forms\<close>

text \<open>Assignment to a key of a dictionary, and \<^verbatim>\<open>dict.update\<close>.\<close>

fun dict_set :: "(string \<times> 'v) list \<Rightarrow> string \<Rightarrow> 'v \<Rightarrow> (string \<times> 'v) list" where
  "dict_set [] k v = [(k, v)]"
| "dict_set ((k', v') # kvs) k v =
     (if k' = k then (k, v) # kvs else (k', v') # dict_set kvs k v)"

fun dict_update :: "(string \<times> 'v) list \<Rightarrow> (string \<times> 'v) list \<Rightarrow> (string \<times> 'v) list" where
  "dict_update d [] = d"
| "dict_update d ((k, v) # kvs) = dict_update (dict_set d k v) kvs"

definition endswith :: "string \<Rightarrow> string \<Rightarrow> bool" where
  "endswith k suffix =
     (length suffix \<le> length k \<and> drop (length k - length suffix) k = suffix)"

text \<open>
  \<^verbatim>\<open>form_data.get('form_class', form_data.get('formset_class', None))\<close>; an absent
  key and \<^verbatim>\<open>None\<close> are both falsy.
\<close>

definition form_class_of :: "descriptor \<Rightarrow> class_ref" where
  "form_class_of form_data =
     (case d_form_class form_data of
        Some c \<Rightarrow> c
      | None \<Rightarrow> (case d_formset_class form_data of Some c \<Rightarrow> c | None \<Rightarrow> Falsy))"

text \<open>
  The loop of lines 132 to 136. A key that ends in \<^verbatim>\<open>__callable\<close> has its value called
  on the view; calling a value that is no callable raises TypeError, which the
  surrounding \<^verbatim>\<open>except KeyError\<close> does not catch.
\<close>

fun final_kwargs ::
  "obj option \<Rightarrow> (string \<times> pyval) list \<Rightarrow> (string \<times> pyval) list
     \<Rightarrow> error + (string \<times> pyval) list" where
  "final_kwargs ob [] acc = Inr acc"
| "final_kwargs ob ((k, v) # kvs) acc =
     (if endswith k ''__callable'' then
        (case v of
           PFn g \<Rightarrow>
             final_kwargs ob kvs (dict_set acc (take (length k - length ''__callable'') k) (g ob))
         | _ \<Rightarrow> Inl (TypeError k))
      else final_kwargs ob kvs (dict_set acc k v))"

text \<open>
  The body of the loop of \<^verbatim>\<open>_get_forms\<close> (lines 101 to 143) for one descriptor;
  \<open>ob\<close> is \<^verbatim>\<open>self.object\<close>.
\<close>

definition get_forms_body ::
  "view \<Rightarrow> obj option \<Rightarrow> bool \<Rightarrow> string \<Rightarrow> descriptor \<Rightarrow> error + form" where
  "get_forms_body v ob is_formset name form_data =
     (let prefix = name in
      case form_class_of form_data of
        Falsy \<Rightarrow> Inl (ImproperlyConfigured name)
      | c \<Rightarrow>
         (case (case c of FunctionType g \<Rightarrow> g ob | Class cls \<Rightarrow> Some cls | Falsy \<Rightarrow> None) of
            None \<Rightarrow> Inl (TypeError name)
          | Some form_class \<Rightarrow>
             (let kw0 = [(''prefix'', PStr prefix)];
                  kw1 = (if v_request_method v = ''POST''
                         then dict_set (dict_set kw0 ''data'' PRequestPOST) ''files'' PRequestFILES
                         else kw0);
                  instance =
                    (case d_instance form_data of
                       Some (InstanceCallable g) \<Rightarrow> if \<not> is_formset then g ob else ob
                     | _ \<Rightarrow> if is_formset then ob else None);
                  kw2 = dict_set kw1 ''instance'' (PObj instance)
              in case (case d_kwargs form_data of
                         None \<Rightarrow> Inr kw2
                       | Some kwargs \<Rightarrow>
                           (case final_kwargs ob kwargs [] of
                              Inl e \<Rightarrow> Inl e
                            | Inr fkw \<Rightarrow> Inr (dict_update kw2 fkw))) of
                   Inl e \<Rightarrow> Inl e
                 | Inr form_class_kwargs \<Rightarrow>
                     Inr \<lparr>f_name = name, f_class = form_class,
                          f_kwargs = form_class_kwargs, f_settings = form_data,
                          f_cleaned = False,
                          f_instance = (case map_of form_class_kwargs ''instance'' of
                                          Some (PObj i) \<Rightarrow> i | _ \<Rightarrow> None)\<rparr>)))"

text \<open>\<^verbatim>\<open>_get_forms\<close>: the first descriptor that fails ends the loop.\<close>

fun get_forms ::
  "view \<Rightarrow> obj option \<Rightarrow> (string \<times> descriptor) list \<Rightarrow> bool \<Rightarrow> error + form list" where
  "get_forms v ob [] is_formset = Inr []"
| "get_forms v ob ((name, form_data) # rest) is_formset =
     (case get_forms_body v ob is_formset name form_data of
        Inl e \<Rightarrow> Inl e
      | Inr f \<Rightarrow>
         (case get_forms v ob rest is_formset of
            Inl e \<Rightarrow> Inl e
          | Inr extra_forms \<Rightarrow> Inr (f # extra_forms)))"

definition get_extra_forms :: "view \<Rightarrow> self_state \<Rightarrow> (error + form list) \<times> self_state" where
  "get_extra_forms v st =
     (case s_extra_forms st of
        Some fs \<Rightarrow> (Inr fs, st)
      | None \<Rightarrow>
         (case get_forms v (s_object st) (get_extra_form_classes v) False of
            Inl e \<Rightarrow> (Inl e, st)
          | Inr fs \<Rightarrow> (Inr fs, st\<lparr>s_extra_forms := Some fs\<rparr>)))"

definition get_formsets :: "view \<Rightarrow> self_state \<Rightarrow> (error + form list) \<times> self_state" where
  "get_formsets v st =
     (case s_formsets st of
        Some fs \<Rightarrow> (Inr fs, st)
      | None \<Rightarrow>
         (case get_forms v (s_object st) (get_formset_classes v) True of
            Inl e \<Rightarrow> (Inl e, st)
          | Inr fs \<Rightarrow> (Inr fs, st\<lparr>s_formsets := Some fs\<rparr>)))"

subsection \<open>Validation\<close>

text \<open>
  \<^verbatim>\<open>form.is_valid()\<close>: a form validates when it is bound (it was given \<^verbatim>\<open>data\<close>) and
  the data passes; calling it cleans the form, which collects its errors.
\<close>

definition form_is_valid :: "form \<Rightarrow> bool" where
  "form_is_valid f = (map_of (f_kwargs f) ''data'' \<noteq> None \<and> fc_is_valid (f_class f))"

definition form_cleaned :: "form \<Rightarrow> form" where
  "form_cleaned f = f\<lparr>f_cleaned := True\<rparr>"

text \<open>
  The loop shared by \<^verbatim>\<open>extra_forms_is_valid\<close> and \<^verbatim>\<open>formsets_is_valid\<close>: every form
  is asked, whatever the earlier answers.
\<close>

fun is_valid_loop ::
  "form list \<Rightarrow> bool \<Rightarrow> event list \<Rightarrow> bool \<times> form list \<times> event list" where
  "is_valid_loop [] all_valid tr = (all_valid, [], tr)"
| "is_valid_loop (f # fs) all_valid tr =
     (case is_valid_loop fs (if \<not> form_is_valid f then False else all_valid)
             (tr @ [IsValid (f_name f)]) of
        (r, fs', tr') \<Rightarrow> (r, form_cleaned f # fs', tr'))"

definition extra_forms_is_valid :: "view \<Rightarrow> self_state \<Rightarrow> (error + bool) \<times> self_state" where
  "extra_forms_is_valid v st =
     (case get_extra_forms v st of
        (Inl e, st') \<Rightarrow> (Inl e, st')
      | (Inr extra_forms, st') \<Rightarrow>
         (case is_valid_loop extra_forms True (s_trace st') of
            (all_valid, fs', tr') \<Rightarrow>
              (Inr all_valid, st'\<lparr>s_extra_forms := Some fs', s_trace := tr'\<rparr>)))"

definition formsets_is_valid :: "view \<Rightarrow> self_state \<Rightarrow> (error + bool) \<times> self_state" where
  "formsets_is_valid v st =
     (case get_formsets v st of
        (Inl e, st') \<Rightarrow> (Inl e, st')
      | (Inr formsets, st') \<Rightarrow>
         (case is_valid_loop formsets True (s_trace st') of
            (all_valid, fs', tr') \<Rightarrow>
              (Inr all_valid, st'\<lparr>s_formsets := Some fs', s_trace := tr'\<rparr>)))"

subsection \<open>Persistence\<close>

text \<open>
  \<^verbatim>\<open>form.settings.get('foreign_key_field', form.settings.get('field_name_for_object', None))\<close>
\<close>

definition foreign_key_name :: "descriptor \<Rightarrow> string option" where
  "foreign_key_name settings =
     (case d_foreign_key_field settings of
        Some n \<Rightarrow> Some n
      | None \<Rightarrow> d_field_name_for_object settings)"

text \<open>
  The body of the loop of \<^verbatim>\<open>extra_forms_valid\<close> (lines 201 to 211). The entity saved
  by \<^verbatim>\<open>extra_obj.save()\<close> is recorded with the attributes that \<^verbatim>\<open>setattr\<close> assigned:
  none when the assignment raised, since the \<^verbatim>\<open>except\<close> clause passes. The save of
  an entity left without its foreign key may itself raise; nothing catches that.
\<close>

definition extra_forms_valid_body ::
  "form \<Rightarrow> obj option \<Rightarrow> event list \<Rightarrow> error option \<times> event list" where
  "extra_forms_valid_body form object tr =
     (if fc_has_save (f_class form) then
        (let tr1 = tr @ [SaveUncommitted (f_name form)] in
         if d_foreign_key_field (f_settings form) = None
            \<and> d_field_name_for_object (f_settings form) = None
         then (Some (ImproperlyConfigured (f_name form)), tr1)
         else
           (let attrs =
                  (case foreign_key_name (f_settings form) of
                     None \<Rightarrow> []
                   | Some n \<Rightarrow>
                       if fc_setattr_raises (f_class form) n then [] else [(n, object)])
            in if attrs = [] \<and> fc_save_unassigned_raises (f_class form)
               then (Some (IntegrityError (f_name form)), tr1)
               else
                 (let tr2 = tr1 @ [EntitySave (f_name form) attrs]
                  in (None, if fc_has_save_m2m (f_class form)
                            then tr2 @ [SaveM2M (f_name form)] else tr2))))
      else (None, tr))"

fun extra_forms_valid_loop ::
  "form list \<Rightarrow> obj option \<Rightarrow> event list \<Rightarrow> error option \<times> event list" where
  "extra_forms_valid_loop [] object tr = (None, tr)"
| "extra_forms_valid_loop (form # rest) object tr =
     (case extra_forms_valid_body form object tr of
        (Some e, tr') \<Rightarrow> (Some e, tr')
      | (None, tr') \<Rightarrow> extra_forms_valid_loop rest object tr')"

definition extra_forms_valid ::
  "view \<Rightarrow> obj option \<Rightarrow> self_state \<Rightarrow> error option \<times> self_state" where
  "extra_forms_valid v object st =
     (case get_extra_forms v st of
        (Inl e, st') \<Rightarrow> (Some e, st')
      | (Inr extra_forms, st') \<Rightarrow>
         (case extra_forms_valid_loop extra_forms object (s_trace st') of
            (r, tr') \<Rightarrow> (r, st'\<lparr>s_trace := tr'\<rparr>)))"

text \<open>The loop of \<^verbatim>\<open>formsets_valid\<close>: assign the instance, then save.\<close>

fun formsets_valid_loop ::
  "form list \<Rightarrow> obj option \<Rightarrow> event list \<Rightarrow> form list \<times> event list" where
  "formsets_valid_loop [] object tr = ([], tr)"
| "formsets_valid_loop (formset # rest) object tr =
     (case formsets_valid_loop rest object (tr @ [FormsetSave (f_name formset) object]) of
        (fs', tr') \<Rightarrow> (formset\<lparr>f_instance := object\<rparr> # fs', tr'))"

definition formsets_valid ::
  "view \<Rightarrow> obj option \<Rightarrow> self_state \<Rightarrow> error option \<times> self_state" where
  "formsets_valid v object st =
     (case get_formsets v st of
        (Inl e, st') \<Rightarrow> (Some e, st')
      | (Inr formsets, st') \<Rightarrow>
         (case formsets_valid_loop formsets object (s_trace st') of
            (fs', tr') \<Rightarrow> (None, st'\<lparr>s_formsets := Some fs', s_trace := tr'\<rparr>)))"

subsection \<open>The request handler\<close>

definition form_valid :: "view \<Rightarrow> master_form \<Rightarrow> self_state \<Rightarrow> response \<times> self_state" where
  "form_valid v form st =
     (Redirect (v_get_success_url v),
      st\<lparr>s_object := Some (mf_save form), s_trace := s_trace st @ [MasterSave (mf_save form)]\<rparr>)"

text \<open>
  \<^verbatim>\<open>get_context_data\<close>, called with \<^verbatim>\<open>form=form\<close>: the formsets are fetched before
  the extra forms.
\<close>

definition MultiFormMixin_get_context_data ::
  "view \<Rightarrow> master_form \<Rightarrow> self_state \<Rightarrow> (error + template_context) \<times> self_state" where
  "MultiFormMixin_get_context_data v form st =
     (case get_formsets v st of
        (Inl e, st1) \<Rightarrow> (Inl e, st1)
      | (Inr formsets, st1) \<Rightarrow>
         (case get_extra_forms v st1 of
            (Inl e, st2) \<Rightarrow> (Inl e, st2)
          | (Inr extra_forms, st2) \<Rightarrow>
              (Inr \<lparr>ctx_form = form, ctx_extra_forms = extra_forms, ctx_formsets = formsets\<rparr>,
               st2)))"

definition form_invalid ::
  "view \<Rightarrow> master_form \<Rightarrow> self_state \<Rightarrow> (error + response) \<times> self_state" where
  "form_invalid v form st =
     (case MultiFormMixin_get_context_data v form st of
        (Inl e, st') \<Rightarrow> (Inl e, st')
      | (Inr ctx, st') \<Rightarrow> (Inr (RenderToResponse ctx), st'))"

text \<open>
  \<^verbatim>\<open>post\<close>. The condition of line 173 is a chain of \<^verbatim>\<open>and\<close>: the extra forms are
  validated only when the master form is valid, the formsets only when the master form
  and all the extra forms are.
\<close>

definition MultiFormMixin_post :: "view \<Rightarrow> self_state \<Rightarrow> (error + response) \<times> self_state" where
  "MultiFormMixin_post v st0 =
     (let st1 = st0\<lparr>s_object := v_get_object v\<rparr>;
          form = (v_get_form v)\<lparr>mf_cleaned := True\<rparr>;
          st2 = st1\<lparr>s_trace := s_trace st1 @ [MasterIsValid]\<rparr>
      in if mf_is_valid form then
           (case extra_forms_is_valid v st2 of
              (Inl e, st3) \<Rightarrow> (Inl e, st3)
            | (Inr extras_ok, st3) \<Rightarrow>
                if extras_ok then
                  (case formsets_is_valid v st3 of
                     (Inl e, st4) \<Rightarrow> (Inl e, st4)
                   | (Inr formsets_ok, st4) \<Rightarrow>
                       if formsets_ok then
                         (case form_valid v form st4 of
                            (next, st5) \<Rightarrow>
                              (case extra_forms_valid v (s_object st5) st5 of
                                 (Some e, st6) \<Rightarrow> (Inl e, st6)
                               | (None, st6) \<Rightarrow>
                                   (case formsets_valid v (s_object st6) st6 of
                                      (Some e, st7) \<Rightarrow> (Inl e, st7)
                                    | (None, st7) \<Rightarrow> (Inr next, st7))))
                       else form_invalid v form st4)
                else form_invalid v form st3)
         else form_invalid v form st2)"

subsection \<open>The example of the class docstring\<close>

text \<open>
  A create view with one extra form \<^verbatim>\<open>b1_form\<close>, whose entity points to the master
  through the attribute \<^verbatim>\<open>a\<close>, and one formset \<^verbatim>\<open>b2_formset\<close>. The submitted data is
  valid for all three, and saving the master form returns the entity 7.
\<close>

definition B1Form :: form_class where
  "B1Form = \<lparr>fc_is_valid = True, fc_has_save = True, fc_has_save_m2m = True,
             fc_setattr_raises = (\<lambda>_. False), fc_save_unassigned_raises = True\<rparr>"

definition B2FormSet :: form_class where
  "B2FormSet = \<lparr>fc_is_valid = True, fc_has_save = True, fc_has_save_m2m = False,
                fc_setattr_raises = (\<lambda>_. False), fc_save_unassigned_raises = True\<rparr>"

definition b1_form :: descriptor where
  "b1_form = \<lparr>d_form_class = Some (Class B1Form), d_formset_class = None,
              d_instance = Some (InstanceCallable (\<lambda>_. None)), d_kwargs = None,
              d_foreign_key_field = Some ''a'', d_field_name_for_object = None\<rparr>"

definition b2_formset :: descriptor where
  "b2_formset = \<lparr>d_form_class = Some (Class B2FormSet), d_formset_class = None,
                 d_instance = None, d_kwargs = None,
                 d_foreign_key_field = None, d_field_name_for_object = None\<rparr>"

definition ACreateView :: view where
  "ACreateView =
     \<lparr>v_request_method = ''POST'',
      v_extra_form_classes = Some [(''b1_form'', b1_form)],
      v_formset_classes = Some [(''b2_formset'', b2_formset)],
      v_get_object = None,
      v_get_form = \<lparr>mf_is_valid = True, mf_save = 7, mf_cleaned = False\<rparr>,
      v_get_success_url = ''/a/7/''\<rparr>"

section \<open>BetterListView\<close>

text \<open>A row of the listed model: its primary key and the text of each of its fields.\<close>

record entity =
  pk :: nat
  attr :: "string \<Rightarrow> string"

text \<open>
  The request of the listing view: the query string as its list of key and value pairs,
  in the order they were sent (a key may be repeated), and the two POST parameters the view
  reads (\<^verbatim>\<open>POST.get('action', '')\<close> and \<^verbatim>\<open>POST.getlist('id')\<close>, the keys already
  converted to the type of the primary key).
\<close>

record request =
  req_GET :: "(string \<times> string) list"
  req_POST_action :: "string option"
  req_POST_id :: "nat list"

text \<open>
  \<^verbatim>\<open>QueryDict.get(key, default)\<close>: the last value sent for the key, the default when
  the key was not sent.
\<close>

definition QueryDict_get :: "(string \<times> string) list \<Rightarrow> string \<Rightarrow> string \<Rightarrow> string" where
  "QueryDict_get qd key dflt =
     (case map_of (rev qd) key of None \<Rightarrow> dflt | Some val \<Rightarrow> val)"

text \<open>
  A bulk-action handler takes the queryset \<^verbatim>\<open>model.objects.filter(pk__in=ids)\<close>, kept
  as the list of keys since it is evaluated lazily, and the table; it returns a response
  or raises, and the table after it.
\<close>

type_synonym handler = "nat list \<Rightarrow> entity list \<Rightarrow> (error + response) \<times> entity list"

text \<open>
  The view object. \<open>lv_read_only = None\<close> is a view on which no \<^verbatim>\<open>read_only\<close>
  attribute is defined. \<open>lv_attrs\<close> holds every attribute of the view object other than
  \<^verbatim>\<open>delete_selected\<close> (handlers a subclass defines, and whatever else \<^verbatim>\<open>getattr\<close>
  finds), each with what calling it on a queryset does.
\<close>

record list_view =
  lv_read_only :: "bool option"
  lv_prefix :: string
  lv_search_fields :: "string list"
  lv_attrs :: "(string \<times> handler) list"

text \<open>
  What \<^verbatim>\<open>getattr(self, name)(queryset)\<close> does for the names the class body itself
  defines (lines 349 to 436), \<^verbatim>\<open>delete_selected\<close> apart. The five class attributes are
  tuples or a string, and calling them raises TypeError. The methods take no queryset
  (or, for \<^verbatim>\<open>get_queryset\<close> and \<^verbatim>\<open>get_context_data\<close>, pass it on to a superclass
  method that takes none, and \<^verbatim>\<open>process_action\<close> misses an argument), so calling them
  raises TypeError as well. \<^verbatim>\<open>post\<close> accepts any arguments and reads the same request
  again, so it dispatches to itself until the recursion limit raises RuntimeError. None of
  them touches the table.
\<close>

definition raises_TypeError :: "string \<Rightarrow> string \<times> handler" where
  "raises_TypeError name = (name, \<lambda>queryset db. (Inl (TypeError name), db))"

definition class_attrs :: "(string \<times> handler) list" where
  "class_attrs =
     map raises_TypeError
       [''table_columns'', ''actions'', ''single_actions'', ''search_fields'', ''prefix'',
        ''get_queryset'', ''get_context_data'', ''get_prefix'', ''get_table_columns'',
        ''get_actions'', ''get_single_actions'', ''get_search_fields'', ''process_action'',
        ''create_url'', ''detail_url'', ''edit_url'', ''delete_url'']
     @ [(''post'', \<lambda>queryset db. (Inl (RuntimeError ''post''), db))]"

text \<open>
  The class \<^verbatim>\<open>BetterListView\<close> (lines 349 to 355): \<^verbatim>\<open>search_fields\<close> is empty,
  \<^verbatim>\<open>prefix\<close> is \<^verbatim>\<open>items\<close>, and no \<^verbatim>\<open>read_only\<close> is defined. A subclass adds
  its handlers, and the attributes it inherits from Django's list view, to \<open>lv_attrs\<close>.
\<close>

definition BetterListView :: list_view where
  "BetterListView =
     \<lparr>lv_read_only = None, lv_prefix = ''items'', lv_search_fields = [],
      lv_attrs = class_attrs\<rparr>"

subsection \<open>Search\<close>

text \<open>
  Django's \<^verbatim>\<open>Q\<close> objects, as far as the source builds them: a disjunction of
  \<^verbatim>\<open>field__icontains=term\<close> lookups. \<open>Q []\<close> is the empty \<^verbatim>\<open>Q()\<close>. Combining with
  \<^verbatim>\<open>|\<close> ignores an empty operand, and filtering by an empty \<^verbatim>\<open>Q()\<close> restricts nothing
  (Django's behaviour).
\<close>

datatype Q = Q "(string \<times> string) list"

fun Q_or :: "Q \<Rightarrow> Q \<Rightarrow> Q" where
  "Q_or (Q a) (Q b) = Q (a @ b)"

definition lower :: "char \<Rightarrow> char" where
  "lower c = (let n = (of_char c :: nat) in if 65 \<le> n \<and> n \<le> 90 then char_of (n + 32) else c)"

fun starts_with :: "string \<Rightarrow> string \<Rightarrow> bool" where
  "starts_with _ [] = True"
| "starts_with [] (_ # _) = False"
| "starts_with (x # xs) (y # ys) = (x = y \<and> starts_with xs ys)"

fun contains :: "string \<Rightarrow> string \<Rightarrow> bool" where
  "contains [] t = (t = [])"
| "contains (x # xs) t = (starts_with (x # xs) t \<or> contains xs t)"

text \<open>The \<^verbatim>\<open>icontains\<close> lookup: case-insensitive substring, on ASCII letters.\<close>

definition icontains :: "string \<Rightarrow> string \<Rightarrow> bool" where
  "icontains s t = contains (map lower s) (map lower t)"

definition lookup_matches :: "entity \<Rightarrow> string \<times> string \<Rightarrow> bool" where
  "lookup_matches e l = icontains (attr e (fst l)) (snd l)"

fun queryset_filter :: "entity list \<Rightarrow> Q \<Rightarrow> entity list" where
  "queryset_filter qs (Q ls) =
     (if ls = [] then qs else filter (\<lambda>e. list_ex (lookup_matches e) ls) qs)"

text \<open>The loop of lines 362 to 363.\<close>

fun build_filters :: "string list \<Rightarrow> string \<Rightarrow> Q \<Rightarrow> Q" where
  "build_filters [] q filters = filters"
| "build_filters (field # rest) q filters =
     build_filters rest q (Q_or filters (Q [(field, q)]))"

text \<open>
  \<^verbatim>\<open>get_queryset\<close>; the second argument is the queryset of the superclass.
\<close>

definition get_queryset :: "list_view \<Rightarrow> request \<Rightarrow> entity list \<Rightarrow> entity list" where
  "get_queryset v req queryset =
     (let q = QueryDict_get (req_GET req) ''q'' []
      in if q \<noteq> []
         then queryset_filter queryset (build_filters (lv_search_fields v) q (Q []))
         else queryset)"

subsection \<open>Bulk actions\<close>

definition get_prefix :: "list_view \<Rightarrow> string" where
  "get_prefix v = lv_prefix v"

definition delete_selected :: "list_view \<Rightarrow> handler" where
  "delete_selected v queryset db =
     (Inr (Redirect (lv_prefix v @ ''_index'')), filter (\<lambda>e. pk e \<notin> set queryset) db)"

text \<open>\<^verbatim>\<open>getattr(self, action)\<close>: \<open>None\<close> is the AttributeError.\<close>

definition getattr_view :: "list_view \<Rightarrow> string \<Rightarrow> handler option" where
  "getattr_view v action =
     (if action = ''delete_selected'' then Some (delete_selected v)
      else map_of (lv_attrs v) action)"

definition process_action ::
  "list_view \<Rightarrow> string \<Rightarrow> nat list \<Rightarrow> entity list \<Rightarrow> (error + response) \<times> entity list" where
  "process_action v action queryset db =
     (case lv_read_only v of
        None \<Rightarrow> (Inl (AttributeError ''read_only''), db)
      | Some ro \<Rightarrow>
          if \<not> ro then
            (case getattr_view v action of
               None \<Rightarrow> (Inl (AttributeError action), db)
             | Some h \<Rightarrow> h queryset db)
          else (Inr (Redirect (lv_prefix v @ ''_index'')), db))"

definition BetterListView_post ::
  "list_view \<Rightarrow> request \<Rightarrow> entity list \<Rightarrow> (error + response) \<times> entity list" where
  "BetterListView_post v req db =
     (case lv_read_only v of
        None \<Rightarrow> (Inl (AttributeError ''read_only''), db)
      | Some ro \<Rightarrow>
          if \<not> ro then
            (let selected_action = (case req_POST_action req of None \<Rightarrow> [] | Some a \<Rightarrow> a);
                 ids = req_POST_id req;
                 queryset = ids
             in if selected_action \<noteq> []
                then process_action v selected_action queryset db
                else (Inr (Redirect (get_prefix v @ ''_index'')), db))
          else (Inr (Redirect (get_prefix v @ ''_index'')), db))"

section \<open>Properties of MultiFormMixin\<close>

text \<open>The loops, in closed form.\<close>

lemma is_valid_loop_eq:
  "is_valid_loop fs b tr =
     (b \<and> list_all form_is_valid fs, map form_cleaned fs, tr @ map (\<lambda>f. IsValid (f_name f)) fs)"
  by (induction fs arbitrary: b tr) auto

lemma formsets_valid_loop_eq:
  "formsets_valid_loop fs ob tr =
     (map (\<lambda>f. f\<lparr>f_instance := ob\<rparr>) fs, tr @ map (\<lambda>f. FormsetSave (f_name f) ob) fs)"
  by (induction fs arbitrary: tr) auto

lemma form_cleaned_simps [simp]:
  "f_name (form_cleaned f) = f_name f"
  "f_class (form_cleaned f) = f_class f"
  "f_settings (form_cleaned f) = f_settings f"
  "f_cleaned (form_cleaned f)"
  by (simp_all add: form_cleaned_def)

lemma extra_forms_valid_loop_ok:
  assumes "\<forall>f\<in>set fs. fc_has_save (f_class f) \<and> foreign_key_name (f_settings f) \<noteq> None
             \<and> (fc_setattr_raises (f_class f) (the (foreign_key_name (f_settings f)))
                  \<longrightarrow> \<not> fc_save_unassigned_raises (f_class f))"
  shows "extra_forms_valid_loop fs ob tr =
     (None, tr @ concat (map (\<lambda>f.
        [SaveUncommitted (f_name f),
         EntitySave (f_name f)
           (if fc_setattr_raises (f_class f) (the (foreign_key_name (f_settings f))) then []
            else [(the (foreign_key_name (f_settings f)), ob)])]
        @ (if fc_has_save_m2m (f_class f) then [SaveM2M (f_name f)] else [])) fs))"
  using assms
  by (induction fs arbitrary: tr)
     (auto simp: extra_forms_valid_body_def foreign_key_name_def Let_def split: option.splits)

lemma get_forms_names:
  "get_forms v ob items b = Inr fs \<Longrightarrow>
     map f_name fs = map fst items \<and> map f_settings fs = map snd items"
  by (induction items arbitrary: fs)
     (auto simp: get_forms_body_def Let_def split: sum.splits class_ref.splits option.splits)


lemma map_form_cleaned_proj [simp]:
  "map f_name (map form_cleaned fs) = map f_name fs"
  "list_all f_cleaned (map form_cleaned fs)"
  by (induction fs) simp_all

lemma no_persists_validation [simp]:
  "\<not> list_ex persists (map (\<lambda>f. IsValid (f_name f)) fs)"
  by (induction fs) simp_all

text \<open>
  C1, as the code has it. On a POST where every declared form and formset is constructed,
  the master form and all of them validate, and every extra form has a callable
  \<^verbatim>\<open>save\<close>, names its foreign-key attribute in its descriptor and accepts the
  assignment: the response is the redirect to the success URL, and the trace is the
  validations, then the save of the master entity, then for each extra form in order
  the save of its entity with the foreign-key attribute set to the entity that the master
  save returned, then the save of each formset with that entity as its instance.
\<close>

theorem post_valid_persists_in_order:
  assumes extras: "get_forms v (v_get_object v) (get_extra_form_classes v) False = Inr efs"
    and formsets: "get_forms v (v_get_object v) (get_formset_classes v) True = Inr fss"
    and master: "mf_is_valid (v_get_form v)"
    and valid: "list_all form_is_valid efs" "list_all form_is_valid fss"
    and cfg: "\<forall>f\<in>set efs. fc_has_save (f_class f) \<and>
                (\<exists>n. foreign_key_name (f_settings f) = Some n \<and> \<not> fc_setattr_raises (f_class f) n)"
  shows "fst (MultiFormMixin_post v fresh) = Inr (Redirect (v_get_success_url v)) \<and>
         s_trace (snd (MultiFormMixin_post v fresh)) =
           [MasterIsValid] @ map (\<lambda>f. IsValid (f_name f)) efs
           @ map (\<lambda>f. IsValid (f_name f)) fss
           @ [MasterSave (mf_save (v_get_form v))]
           @ concat (map (\<lambda>f.
               [SaveUncommitted (f_name f),
                EntitySave (f_name f)
                  [(the (foreign_key_name (f_settings f)), Some (mf_save (v_get_form v)))]]
               @ (if fc_has_save_m2m (f_class f) then [SaveM2M (f_name f)] else [])) efs)
           @ map (\<lambda>f. FormsetSave (f_name f) (Some (mf_save (v_get_form v)))) fss"
proof -
  let ?m = "mf_save (v_get_form v)"
  have cfg': "\<forall>f\<in>set (map form_cleaned efs).
      fc_has_save (f_class f) \<and> foreign_key_name (f_settings f) \<noteq> None
      \<and> (fc_setattr_raises (f_class f) (the (foreign_key_name (f_settings f)))
           \<longrightarrow> \<not> fc_save_unassigned_raises (f_class f))"
    using cfg by fastforce
  have loop: "extra_forms_valid_loop (map form_cleaned efs) (Some ?m) tr =
     (None, tr @ concat (map (\<lambda>f.
               [SaveUncommitted (f_name f),
                EntitySave (f_name f) [(the (foreign_key_name (f_settings f)), Some ?m)]]
               @ (if fc_has_save_m2m (f_class f) then [SaveM2M (f_name f)] else [])) efs))" for tr
  proof -
    have ok: "\<forall>f\<in>set efs. \<not> fc_setattr_raises (f_class f) (the (foreign_key_name (f_settings f)))"
      using cfg by fastforce
    show ?thesis
      unfolding extra_forms_valid_loop_ok [OF cfg']
      using ok by (auto simp: comp_def intro!: arg_cong [where f = concat])
  qed
  show ?thesis
    using extras formsets master valid
    by (simp add: MultiFormMixin_post_def fresh_def extra_forms_is_valid_def
        formsets_is_valid_def get_extra_forms_def get_formsets_def is_valid_loop_eq
        form_valid_def extra_forms_valid_def formsets_valid_def loop
        formsets_valid_loop_eq comp_def)
qed


text \<open>Unfolding rules for evaluating the handler on concrete views.\<close>

lemmas example_defs =
  ACreateView_def b1_form_def b2_formset_def B1Form_def B2FormSet_def
  get_extra_form_classes_def get_formset_classes_def get_forms_body_def form_class_of_def
  form_is_valid_def foreign_key_name_def

lemmas post_defs =
  MultiFormMixin_post_def fresh_def extra_forms_is_valid_def formsets_is_valid_def
  get_extra_forms_def get_formsets_def is_valid_loop_eq form_valid_def form_invalid_def
  MultiFormMixin_get_context_data_def extra_forms_valid_def formsets_valid_def
  formsets_valid_loop_eq

lemmas eval_defs = post_defs extra_forms_valid_body_def form_cleaned_def Let_def

text \<open>The docstring example, with valid data for the master form and both children.\<close>

theorem post_valid_persists_in_order_witness:
  "fst (MultiFormMixin_post ACreateView fresh) = Inr (Redirect ''/a/7/'') \<and>
   s_trace (snd (MultiFormMixin_post ACreateView fresh)) =
     [MasterIsValid, IsValid ''b1_form'', IsValid ''b2_formset'', MasterSave 7,
      SaveUncommitted ''b1_form'', EntitySave ''b1_form'' [(''a'', Some 7)],
      SaveM2M ''b1_form'', FormsetSave ''b2_formset'' (Some 7)]"
proof -
  let ?kw = "\<lambda>n. [(''prefix'', PStr n), (''data'', PRequestPOST), (''files'', PRequestFILES),
                  (''instance'', PObj None)]"
  let ?f1 = "\<lparr>f_name = ''b1_form'', f_class = B1Form, f_kwargs = ?kw ''b1_form'',
              f_settings = b1_form, f_cleaned = False, f_instance = None\<rparr>"
  let ?f2 = "\<lparr>f_name = ''b2_formset'', f_class = B2FormSet, f_kwargs = ?kw ''b2_formset'',
              f_settings = b2_formset, f_cleaned = False, f_instance = None\<rparr>"
  have e: "get_forms ACreateView (v_get_object ACreateView)
             (get_extra_form_classes ACreateView) False = Inr [?f1]"
    by (simp add: example_defs)
  have f: "get_forms ACreateView (v_get_object ACreateView)
             (get_formset_classes ACreateView) True = Inr [?f2]"
    by (simp add: example_defs)
  have m: "mf_is_valid (v_get_form ACreateView)"
    by (simp add: ACreateView_def)
  have v1: "list_all form_is_valid [?f1]" and v2: "list_all form_is_valid [?f2]"
    by (simp_all add: example_defs)
  have c: "\<forall>f\<in>set [?f1]. fc_has_save (f_class f) \<and>
             (\<exists>n. foreign_key_name (f_settings f) = Some n \<and> \<not> fc_setattr_raises (f_class f) n)"
    by (simp add: example_defs)
  from post_valid_persists_in_order [OF e f m v1 v2 c]
  show ?thesis by (simp add: example_defs)
qed

text \<open>
  C1 as stated fails when a descriptor names no foreign-key attribute: everything
  validates, the master entity is saved, and line 204 raises ImproperlyConfigured; the
  entity of the extra form is never saved and no redirect is returned.
\<close>

theorem post_valid_counterexample:
  "fst (MultiFormMixin_post
          (ACreateView\<lparr>v_extra_form_classes :=
             Some [(''b1_form'', b1_form\<lparr>d_foreign_key_field := None\<rparr>)]\<rparr>) fresh)
     = Inl (ImproperlyConfigured ''b1_form'')
   \<and> s_trace (snd (MultiFormMixin_post
          (ACreateView\<lparr>v_extra_form_classes :=
             Some [(''b1_form'', b1_form\<lparr>d_foreign_key_field := None\<rparr>)]\<rparr>) fresh))
     = [MasterIsValid, IsValid ''b1_form'', IsValid ''b2_formset'', MasterSave 7,
        SaveUncommitted ''b1_form'']"
  by (simp add: eval_defs example_defs)


text \<open>
  C2, as the code has it. On a POST where every declared form and formset is constructed
  and the master form, an extra form or a formset is invalid: nothing is saved, and the
  response re-renders the page with the master form (validated), every extra form and
  every formset in the context; the extra forms are all validated when the master form
  is valid, and the formsets when the master form and all extra forms are valid.
\<close>

theorem post_invalid_no_save:
  assumes extras: "get_forms v (v_get_object v) (get_extra_form_classes v) False = Inr efs"
    and formsets: "get_forms v (v_get_object v) (get_formset_classes v) True = Inr fss"
    and invalid: "\<not> mf_is_valid (v_get_form v) \<or> \<not> list_all form_is_valid efs
                  \<or> \<not> list_all form_is_valid fss"
  shows "(\<exists>ctx. fst (MultiFormMixin_post v fresh) = Inr (RenderToResponse ctx)
            \<and> mf_cleaned (ctx_form ctx)
            \<and> map f_name (ctx_extra_forms ctx) = map fst (get_extra_form_classes v)
            \<and> map f_name (ctx_formsets ctx) = map fst (get_formset_classes v)
            \<and> (mf_is_valid (v_get_form v) \<longrightarrow> list_all f_cleaned (ctx_extra_forms ctx))
            \<and> (mf_is_valid (v_get_form v) \<and> list_all form_is_valid efs
                 \<longrightarrow> list_all f_cleaned (ctx_formsets ctx)))
         \<and> \<not> list_ex persists (s_trace (snd (MultiFormMixin_post v fresh)))"
proof -
  have names: "map f_name efs = map fst (get_extra_form_classes v)"
    "map f_name fss = map fst (get_formset_classes v)"
    using get_forms_names [OF extras] get_forms_names [OF formsets] by simp_all
  show ?thesis
  proof (cases "mf_is_valid (v_get_form v)")
    case False
    then show ?thesis
      using extras formsets names by (simp add: post_defs Let_def comp_def)
  next
    case master: True
    show ?thesis
    proof (cases "list_all form_is_valid efs")
      case False
      then show ?thesis
        using master extras formsets names by (simp add: post_defs Let_def comp_def)
    next
      case True
      with invalid master have "\<not> list_all form_is_valid fss" by simp
      then show ?thesis
        using True master extras formsets names by (simp add: post_defs Let_def comp_def)
    qed
  qed
qed

theorem post_invalid_no_save_witness:
  "(\<exists>ctx. fst (MultiFormMixin_post
       (ACreateView\<lparr>v_get_form := \<lparr>mf_is_valid = False, mf_save = 7, mf_cleaned = False\<rparr>\<rparr>)
       fresh) = Inr (RenderToResponse ctx)
      \<and> mf_cleaned (ctx_form ctx)
      \<and> map f_name (ctx_extra_forms ctx) = [''b1_form'']
      \<and> map f_name (ctx_formsets ctx) = [''b2_formset''])
   \<and> \<not> list_ex persists (s_trace (snd (MultiFormMixin_post
       (ACreateView\<lparr>v_get_form := \<lparr>mf_is_valid = False, mf_save = 7, mf_cleaned = False\<rparr>\<rparr>)
       fresh)))"
proof -
  let ?v = "ACreateView\<lparr>v_get_form := \<lparr>mf_is_valid = False, mf_save = 7, mf_cleaned = False\<rparr>\<rparr>"
  let ?kw = "\<lambda>n. [(''prefix'', PStr n), (''data'', PRequestPOST), (''files'', PRequestFILES),
                  (''instance'', PObj None)]"
  let ?f1 = "\<lparr>f_name = ''b1_form'', f_class = B1Form, f_kwargs = ?kw ''b1_form'',
              f_settings = b1_form, f_cleaned = False, f_instance = None\<rparr>"
  let ?f2 = "\<lparr>f_name = ''b2_formset'', f_class = B2FormSet, f_kwargs = ?kw ''b2_formset'',
              f_settings = b2_formset, f_cleaned = False, f_instance = None\<rparr>"
  have e: "get_forms ?v (v_get_object ?v) (get_extra_form_classes ?v) False = Inr [?f1]"
    by (simp add: example_defs)
  have f: "get_forms ?v (v_get_object ?v) (get_formset_classes ?v) True = Inr [?f2]"
    by (simp add: example_defs)
  have i: "\<not> mf_is_valid (v_get_form ?v) \<or> \<not> list_all form_is_valid [?f1]
             \<or> \<not> list_all form_is_valid [?f2]"
    by (simp add: ACreateView_def)
  from post_invalid_no_save [OF e f i]
  show ?thesis by (simp add: example_defs)
qed

text \<open>
  C2 as stated fails when a descriptor cannot be constructed: the master form is invalid,
  and instead of the re-rendered page the request ends in ImproperlyConfigured.
\<close>

theorem post_invalid_counterexample:
  "fst (MultiFormMixin_post
     (ACreateView\<lparr>v_get_form := \<lparr>mf_is_valid = False, mf_save = 7, mf_cleaned = False\<rparr>,
                  v_extra_form_classes := Some [(''b1_form'', b1_form\<lparr>d_form_class := None\<rparr>)]\<rparr>)
     fresh) = Inl (ImproperlyConfigured ''b1_form'')"
  by (simp add: eval_defs example_defs)

text \<open>
  C3 on the code: with an invalid master form the condition of line 173 stops at its
  first operand. The only validation in the trace is the one of the master form; the
  extra form and the formset reach the template without \<^verbatim>\<open>is_valid()\<close> having been
  called on them, although the loops of \<^verbatim>\<open>extra_forms_is_valid\<close> and
  \<^verbatim>\<open>formsets_is_valid\<close> are written so that all forms are cleaned.
\<close>

theorem post_master_invalid_skips_validation:
  "s_trace (snd (MultiFormMixin_post
     (ACreateView\<lparr>v_get_form := \<lparr>mf_is_valid = False, mf_save = 7, mf_cleaned = False\<rparr>\<rparr>)
     fresh)) = [MasterIsValid]
   \<and> (case fst (MultiFormMixin_post
        (ACreateView\<lparr>v_get_form := \<lparr>mf_is_valid = False, mf_save = 7, mf_cleaned = False\<rparr>\<rparr>)
        fresh) of
        Inr (RenderToResponse ctx) \<Rightarrow>
          map f_name (ctx_extra_forms ctx) = [''b1_form'']
          \<and> map f_cleaned (ctx_extra_forms ctx) = [False]
          \<and> map f_name (ctx_formsets ctx) = [''b2_formset'']
          \<and> map f_cleaned (ctx_formsets ctx) = [False]
      | _ \<Rightarrow> False)"
  by (simp add: eval_defs example_defs)




text \<open>The errors of \<^verbatim>\<open>_get_forms\<close>.\<close>

lemma final_kwargs_error:
  "final_kwargs ob kws acc = Inl e \<Longrightarrow> \<exists>n. e = TypeError n"
  by (induction ob kws acc rule: final_kwargs.induct) (auto split: if_splits pyval.splits)

lemma get_forms_body_error:
  "get_forms_body v ob b name d = Inl e \<Longrightarrow> \<exists>n. e = ImproperlyConfigured n \<or> e = TypeError n"
  by (auto simp: get_forms_body_def Let_def dest: final_kwargs_error
      split: class_ref.splits option.splits sum.splits)

lemma get_forms_error:
  "get_forms v ob items b = Inl e \<Longrightarrow> \<exists>n. e = ImproperlyConfigured n \<or> e = TypeError n"
  by (induction items) (auto dest: get_forms_body_error split: sum.splits)

lemma get_forms_bad:
  assumes "(name, d) \<in> set items"
    and "form_class_of d = Falsy \<or> (\<exists>g. form_class_of d = FunctionType g \<and> g ob = None)"
  shows "\<exists>e. get_forms v ob items b = Inl e"
proof -
  have body: "\<exists>e. get_forms_body v ob b name d = Inl e"
    using assms(2) by (auto simp: get_forms_body_def)
  show ?thesis
    using assms(1) body
    by (induction items) (auto split: sum.splits)
qed

text \<open>
  C7, as the code has it. When a descriptor of an extra form or of a formset has no
  construction class (neither key, or a falsy value), or its construction function
  returns nothing, a POST ends in an exception (ImproperlyConfigured or TypeError) and
  nothing has been saved. Forms are built on first use, so validations may precede it.
\<close>

theorem bad_descriptor_fails_before_persistence:
  assumes mem: "(name, d) \<in> set (get_extra_form_classes v @ get_formset_classes v)"
    and bad: "form_class_of d = Falsy
              \<or> (\<exists>g. form_class_of d = FunctionType g \<and> g (v_get_object v) = None)"
  shows "(\<exists>n. fst (MultiFormMixin_post v fresh) = Inl (ImproperlyConfigured n)
            \<or> fst (MultiFormMixin_post v fresh) = Inl (TypeError n))
         \<and> \<not> list_ex persists (s_trace (snd (MultiFormMixin_post v fresh)))"
proof -
  let ?E = "get_forms v (v_get_object v) (get_extra_form_classes v) False"
  let ?F = "get_forms v (v_get_object v) (get_formset_classes v) True"
  have kindE: "\<And>e. ?E = Inl e \<Longrightarrow> \<exists>n. e = ImproperlyConfigured n \<or> e = TypeError n"
    by (rule get_forms_error)
  have kindF: "\<And>e. ?F = Inl e \<Longrightarrow> \<exists>n. e = ImproperlyConfigured n \<or> e = TypeError n"
    by (rule get_forms_error)
  have some: "(\<exists>e. ?E = Inl e) \<or> (\<exists>e. ?F = Inl e)"
    using mem get_forms_bad [OF _ bad] by auto
  show ?thesis
  proof (cases ?E)
    case (Inl e)
    then show ?thesis
      using kindE [OF Inl] kindF
      by (cases ?F) (auto simp: post_defs Let_def)
  next
    case (Inr efs)
    with some obtain e where F: "?F = Inl e" by auto
    show ?thesis
      using Inr F kindF [OF F] by (auto simp: post_defs Let_def)
  qed
qed

theorem bad_descriptor_fails_before_persistence_witness:
  "(\<exists>n. fst (MultiFormMixin_post
        (ACreateView\<lparr>v_formset_classes :=
           Some [(''b2_formset'', b2_formset\<lparr>d_form_class := None\<rparr>)]\<rparr>) fresh)
       = Inl (ImproperlyConfigured n)
     \<or> fst (MultiFormMixin_post
        (ACreateView\<lparr>v_formset_classes :=
           Some [(''b2_formset'', b2_formset\<lparr>d_form_class := None\<rparr>)]\<rparr>) fresh)
       = Inl (TypeError n))
   \<and> \<not> list_ex persists (s_trace (snd (MultiFormMixin_post
        (ACreateView\<lparr>v_formset_classes :=
           Some [(''b2_formset'', b2_formset\<lparr>d_form_class := None\<rparr>)]\<rparr>) fresh)))"
proof -
  let ?d = "b2_formset\<lparr>d_form_class := None\<rparr>"
  let ?v = "ACreateView\<lparr>v_formset_classes := Some [(''b2_formset'', ?d)]\<rparr>"
  have m: "(''b2_formset'', ?d) \<in> set (get_extra_form_classes ?v @ get_formset_classes ?v)"
    by (simp add: get_formset_classes_def)
  have b: "form_class_of ?d = Falsy
           \<or> (\<exists>g. form_class_of ?d = FunctionType g \<and> g (v_get_object ?v) = None)"
    by (simp add: form_class_of_def b2_formset_def)
  from bad_descriptor_fails_before_persistence [OF m b]
  show ?thesis .
qed

text \<open>
  C7 as stated fails on the order: the faulty formset descriptor is detected only after
  the master form and the extra form have been validated.
\<close>

theorem bad_descriptor_counterexample:
  "fst (MultiFormMixin_post
     (ACreateView\<lparr>v_formset_classes :=
        Some [(''b2_formset'', b2_formset\<lparr>d_form_class := None\<rparr>)]\<rparr>) fresh)
     = Inl (ImproperlyConfigured ''b2_formset'')
   \<and> s_trace (snd (MultiFormMixin_post
     (ACreateView\<lparr>v_formset_classes :=
        Some [(''b2_formset'', b2_formset\<lparr>d_form_class := None\<rparr>)]\<rparr>) fresh))
     = [MasterIsValid, IsValid ''b1_form'']"
  by (simp add: eval_defs example_defs)

section \<open>Properties of BetterListView\<close>

lemma build_filters_children:
  "build_filters fs q (Q acc) = Q (acc @ map (\<lambda>f. (f, q)) fs)"
  by (induction fs arbitrary: acc) simp_all

lemma QueryDict_get_last:
  "QueryDict_get (qd @ [(key, val)]) key dflt = val"
  by (simp add: QueryDict_get_def)

lemma QueryDict_get_absent:
  "key \<notin> fst ` set qd \<Longrightarrow> QueryDict_get qd key dflt = dflt"
  by (simp add: QueryDict_get_def map_of_eq_None_iff [THEN iffD2])

lemma list_ex_lookups:
  "list_ex (lookup_matches e) (map (\<lambda>f. (f, q)) fs) = (\<exists>f\<in>set fs. icontains (attr e f) q)"
  by (induction fs) (simp_all add: lookup_matches_def)

text \<open>
  C4, as the code has it. The term is the last value sent for \<^verbatim>\<open>q\<close>. Without a term
  (absent or empty) the collection is returned as it is. With a term and at least one declared search field, the result is exactly the
  elements for which some declared field contains the term, case-insensitively, in the
  order of the collection. With a term and no declared search field (the default of the
  class) the filter is the empty \<^verbatim>\<open>Q()\<close> and the collection is returned unfiltered.
\<close>

theorem get_queryset_search:
  "get_queryset v req qs =
     (let q = QueryDict_get (req_GET req) ''q'' []
      in if q = [] \<or> lv_search_fields v = [] then qs
         else filter (\<lambda>e. \<exists>f\<in>set (lv_search_fields v). icontains (attr e f) q) qs)"
  by (simp add: get_queryset_def Let_def build_filters_children [of _ _ "[]", simplified]
      list_ex_lookups)

theorem get_queryset_search_witness:
  "get_queryset (BetterListView\<lparr>lv_search_fields := [''name'', ''city'']\<rparr>)
     \<lparr>req_GET = [(''q'', ''zz''), (''page'', ''2''), (''q'', ''ann'')],
      req_POST_action = None, req_POST_id = []\<rparr>
     [\<lparr>pk = 1, attr = (\<lambda>f. if f = ''name'' then ''Joanna'' else ''Oslo'')\<rparr>,
      \<lparr>pk = 2, attr = (\<lambda>f. if f = ''name'' then ''Bob'' else ''Hannover'')\<rparr>,
      \<lparr>pk = 3, attr = (\<lambda>f. if f = ''name'' then ''Eve'' else ''Rome'')\<rparr>]
   = [\<lparr>pk = 1, attr = (\<lambda>f. if f = ''name'' then ''Joanna'' else ''Oslo'')\<rparr>,
      \<lparr>pk = 2, attr = (\<lambda>f. if f = ''name'' then ''Bob'' else ''Hannover'')\<rparr>]"
  unfolding get_queryset_search by (simp add: QueryDict_get_def icontains_def lower_def)

text \<open>
  A repeated \<^verbatim>\<open>q\<close> whose last value is empty is an empty term: nothing is filtered.
\<close>

lemma get_queryset_last_term_empty:
  "get_queryset (BetterListView\<lparr>lv_search_fields := [''name'']\<rparr>)
     \<lparr>req_GET = [(''q'', ''bob''), (''q'', [])], req_POST_action = None, req_POST_id = []\<rparr>
     [\<lparr>pk = 1, attr = (\<lambda>_. ''Ann'')\<rparr>, \<lparr>pk = 2, attr = (\<lambda>_. ''Bob'')\<rparr>]
   = [\<lparr>pk = 1, attr = (\<lambda>_. ''Ann'')\<rparr>, \<lparr>pk = 2, attr = (\<lambda>_. ''Bob'')\<rparr>]"
  by (simp add: get_queryset_def QueryDict_get_def)

text \<open>
  C4 as stated fails on the class defaults: no search field is declared, the term
  \<^verbatim>\<open>zz\<close> is present, so no declared field contains it, and the element is returned.
\<close>

theorem get_queryset_search_counterexample:
  "get_queryset BetterListView
     \<lparr>req_GET = [(''q'', ''zz'')], req_POST_action = None, req_POST_id = []\<rparr>
     [\<lparr>pk = 1, attr = (\<lambda>_. ''abc'')\<rparr>] = [\<lparr>pk = 1, attr = (\<lambda>_. ''abc'')\<rparr>]
   \<and> lv_search_fields BetterListView = []"
  by (simp add: get_queryset_def QueryDict_get_def BetterListView_def)

text \<open>
  C5, as the code has it. On a view whose read-only flag is false, a non-empty action
  name that names no attribute of the view makes \<^verbatim>\<open>getattr\<close> raise AttributeError: no
  entity is touched and no redirect is returned.
\<close>

theorem unknown_action_raises:
  assumes "lv_read_only v = Some False"
    and "req_POST_action req = Some a"
    and "a \<noteq> []"
    and "getattr_view v a = None"
  shows "BetterListView_post v req db = (Inl (AttributeError a), db)"
  using assms by (simp add: BetterListView_post_def process_action_def)

theorem unknown_action_raises_witness:
  "BetterListView_post (BetterListView\<lparr>lv_read_only := Some False\<rparr>)
     \<lparr>req_GET = [], req_POST_action = Some ''archive'', req_POST_id = [1]\<rparr>
     [\<lparr>pk = 1, attr = (\<lambda>_. ''abc'')\<rparr>]
   = (Inl (AttributeError ''archive''), [\<lparr>pk = 1, attr = (\<lambda>_. ''abc'')\<rparr>])"
  by (rule unknown_action_raises)
     (simp_all add: getattr_view_def BetterListView_def class_attrs_def raises_TypeError_def)

text \<open>
  A name the class body defines is found by \<^verbatim>\<open>getattr\<close>, and calling it on the
  queryset raises: here \<^verbatim>\<open>get_prefix\<close>, which takes no queryset.
\<close>

lemma class_attribute_action_raises:
  "BetterListView_post (BetterListView\<lparr>lv_read_only := Some False\<rparr>)
     \<lparr>req_GET = [], req_POST_action = Some ''get_prefix'', req_POST_id = [1]\<rparr>
     [\<lparr>pk = 1, attr = (\<lambda>_. ''abc'')\<rparr>]
   = (Inl (TypeError ''get_prefix''), [\<lparr>pk = 1, attr = (\<lambda>_. ''abc'')\<rparr>])"
  by (simp add: BetterListView_post_def process_action_def getattr_view_def BetterListView_def
      class_attrs_def raises_TypeError_def)

text \<open>
  C5 as stated fails: the action \<^verbatim>\<open>archive\<close> is no attribute of the view, and the
  request ends in an AttributeError instead of a redirect.
\<close>

theorem unknown_action_counterexample:
  "fst (BetterListView_post (BetterListView\<lparr>lv_read_only := Some False\<rparr>)
        \<lparr>req_GET = [], req_POST_action = Some ''archive'', req_POST_id = [1]\<rparr>
        [\<lparr>pk = 1, attr = (\<lambda>_. ''abc'')\<rparr>]) = Inl (AttributeError ''archive'')"
  by (simp add: BetterListView_post_def process_action_def getattr_view_def BetterListView_def
      class_attrs_def raises_TypeError_def)

text \<open>
  C8, as the code has it. On a view whose read-only flag is false, a POST with the action
  \<^verbatim>\<open>delete_selected\<close> removes from the table exactly the entities whose primary key is
  among the submitted keys, keeps every other entity in its place, and redirects to the
  route \<^verbatim>\<open><prefix>_index\<close>.
\<close>

theorem delete_selected_exact:
  assumes "lv_read_only v = Some False"
    and "req_POST_action req = Some ''delete_selected''"
  shows "BetterListView_post v req db =
           (Inr (Redirect (lv_prefix v @ ''_index'')),
            filter (\<lambda>e. pk e \<notin> set (req_POST_id req)) db)"
  using assms
  by (simp add: BetterListView_post_def process_action_def getattr_view_def delete_selected_def)

theorem delete_selected_exact_witness:
  "BetterListView_post (BetterListView\<lparr>lv_read_only := Some False\<rparr>)
     \<lparr>req_GET = [], req_POST_action = Some ''delete_selected'', req_POST_id = [1, 3]\<rparr>
     [\<lparr>pk = 1, attr = (\<lambda>_. ''a'')\<rparr>, \<lparr>pk = 2, attr = (\<lambda>_. ''b'')\<rparr>,
      \<lparr>pk = 3, attr = (\<lambda>_. ''c'')\<rparr>]
   = (Inr (Redirect ''items_index''), [\<lparr>pk = 2, attr = (\<lambda>_. ''b'')\<rparr>])"
proof -
  have "lv_read_only (BetterListView\<lparr>lv_read_only := Some False\<rparr>) = Some False"
    by simp
  from delete_selected_exact [OF this, of
      "\<lparr>req_GET = [], req_POST_action = Some ''delete_selected'', req_POST_id = [1, 3]\<rparr>"]
  show ?thesis by (simp add: BetterListView_def)
qed

text \<open>
  C8 as stated fails on a read-only view: the entity with key 1 exists, its key is
  submitted with \<^verbatim>\<open>delete_selected\<close>, and it is still in the table afterwards.
\<close>

theorem delete_selected_counterexample:
  "snd (BetterListView_post (BetterListView\<lparr>lv_read_only := Some True\<rparr>)
     \<lparr>req_GET = [], req_POST_action = Some ''delete_selected'', req_POST_id = [1]\<rparr>
     [\<lparr>pk = 1, attr = (\<lambda>_. ''a'')\<rparr>, \<lparr>pk = 2, attr = (\<lambda>_. ''b'')\<rparr>])
   = [\<lparr>pk = 1, attr = (\<lambda>_. ''a'')\<rparr>, \<lparr>pk = 2, attr = (\<lambda>_. ''b'')\<rparr>]"
  by (simp add: BetterListView_post_def)



text \<open>
  C10. The class defines no \<^verbatim>\<open>read_only\<close>; on every view that has none, a bulk-action
  POST raises AttributeError at the first line of \<^verbatim>\<open>post\<close>: nothing is dispatched, no
  entity is touched, no redirect is returned.
\<close>

theorem read_only_mandatory:
  "lv_read_only BetterListView = None \<and>
   (lv_read_only v = None \<longrightarrow>
      BetterListView_post v req db = (Inl (AttributeError ''read_only''), db))"
  by (simp add: BetterListView_post_def BetterListView_def)

theorem read_only_mandatory_witness:
  "lv_read_only (BetterListView\<lparr>lv_prefix := ''books''\<rparr>) = None \<and>
   BetterListView_post (BetterListView\<lparr>lv_prefix := ''books''\<rparr>)
     \<lparr>req_GET = [], req_POST_action = Some ''delete_selected'', req_POST_id = [1]\<rparr>
     [\<lparr>pk = 1, attr = (\<lambda>_. ''a'')\<rparr>]
   = (Inl (AttributeError ''read_only''), [\<lparr>pk = 1, attr = (\<lambda>_. ''a'')\<rparr>])"
  using read_only_mandatory [of "BetterListView\<lparr>lv_prefix := ''books''\<rparr>"
      "\<lparr>req_GET = [], req_POST_action = Some ''delete_selected'', req_POST_id = [1]\<rparr>"
      "[\<lparr>pk = 1, attr = (\<lambda>_. ''a'')\<rparr>]"]
  by (simp add: BetterListView_def)

end
